theory Spec2Isabelle
  imports Complex_Main
begin

section \<open>Column values\<close>

text \<open>
  The value of a float64 cell is modelled by \<open>fnum\<close>: a finite number (rounding and
  overflow are not modelled, a finite float is the real number it denotes, and the sign
  of a zero is not kept), one of the two infinities, or the missing-value marker NaN.
  The cells of an int64 column are integers; they come with the input file below.
\<close>

datatype fnum = Fin real | PInf | NInf | NaN

text \<open>Comparisons of floats: every comparison with NaN is false.\<close>

fun fle :: "fnum \<Rightarrow> fnum \<Rightarrow> bool" where
  "fle NaN b = False"
| "fle a NaN = False"
| "fle NInf b = True"
| "fle a PInf = True"
| "fle (Fin a) (Fin b) = (a \<le> b)"
| "fle a b = False"

fun flt :: "fnum \<Rightarrow> fnum \<Rightarrow> bool" where
  "flt NaN b = False"
| "flt a NaN = False"
| "flt PInf b = False"
| "flt a NInf = False"
| "flt (Fin a) (Fin b) = (a < b)"
| "flt a b = True"

definition fge :: "fnum \<Rightarrow> fnum \<Rightarrow> bool" where
  "fge a b = fle b a"

definition fgt :: "fnum \<Rightarrow> fnum \<Rightarrow> bool" where
  "fgt a b = flt b a"

text \<open>Arithmetic of floats, with the infinities and NaN of a division by zero.\<close>

fun fneg :: "fnum \<Rightarrow> fnum" where
  "fneg (Fin a) = Fin (- a)"
| "fneg PInf = NInf"
| "fneg NInf = PInf"
| "fneg NaN = NaN"

fun fadd :: "fnum \<Rightarrow> fnum \<Rightarrow> fnum" where
  "fadd NaN b = NaN"
| "fadd a NaN = NaN"
| "fadd (Fin a) (Fin b) = Fin (a + b)"
| "fadd PInf NInf = NaN"
| "fadd NInf PInf = NaN"
| "fadd PInf b = PInf"
| "fadd NInf b = NInf"
| "fadd (Fin a) b = b"

definition fsub :: "fnum \<Rightarrow> fnum \<Rightarrow> fnum" where
  "fsub a b = fadd a (fneg b)"

text \<open>
  The sign of a float as \<open>-1\<close>, \<open>0\<close> or \<open>1\<close>, for the product with an infinity;
  the products with NaN are settled before a sign is asked for.
\<close>

fun fsign :: "fnum \<Rightarrow> int" where
  "fsign (Fin a) = (if a < 0 then - 1 else if a = 0 then 0 else 1)"
| "fsign PInf = 1"
| "fsign NInf = - 1"
| "fsign NaN = 0"

definition inf_of_sign :: "int \<Rightarrow> fnum" where
  "inf_of_sign s = (if s < 0 then NInf else if s = 0 then NaN else PInf)"

fun fmul :: "fnum \<Rightarrow> fnum \<Rightarrow> fnum" where
  "fmul NaN b = NaN"
| "fmul a NaN = NaN"
| "fmul (Fin a) (Fin b) = Fin (a * b)"
| "fmul a b = inf_of_sign (fsign a * fsign b)"

fun fdiv :: "fnum \<Rightarrow> fnum \<Rightarrow> fnum" where
  "fdiv NaN b = NaN"
| "fdiv a NaN = NaN"
| "fdiv (Fin a) (Fin b) =
     (if b \<noteq> 0 then Fin (a / b)
      else if 0 < a then PInf else if a < 0 then NInf else NaN)"
| "fdiv (Fin a) b = Fin 0"
| "fdiv a (Fin b) = (if b < 0 then fneg a else a)"
| "fdiv a b = NaN"

section \<open>The input file\<close>

text \<open>
  A numeric column of the table is an int64 column or a float64 column. A cell of such a
  column is an integer or a float; a missing cell is the float NaN.
\<close>

datatype num = I int | F fnum

datatype dtype = Int64 | Float64

text \<open>
  A cell of a price or review column as \<open>read_csv\<close> hands it over: a string, when
  the column could not be read as numbers throughout; an integer or a float of a
  numeric column; or an empty cell.
\<close>

datatype cell = Text string | Whole int | Number real | Blank

text \<open>
  One line of \<open>Fitness_trackers_updated.csv\<close>, with the columns the computations read.
  The rating and the battery life are numeric columns, used as they are read.
\<close>

record csv_row =
  csv_brand_name :: string
  csv_model_name :: string
  csv_device_type :: string
  csv_color :: string
  csv_selling_price :: cell
  csv_original_price :: cell
  csv_rating :: num
  csv_reviews :: cell
  csv_battery_life :: num

subsection \<open>Reading a number\<close>

text \<open>
  What \<open>pd.to_numeric\<close> reads from a string, after the blanks around it: an optional
  sign, then either the word \<open>inf\<close> or \<open>infinity\<close> in any case, or digits with an
  optional fraction after a point and an optional exponent. Digits alone are an
  integer, every other literal is a float. A float literal denotes the real number it
  writes: neither rounding nor the overflow of a huge exponent is modelled.
\<close>

definition is_digit :: "char \<Rightarrow> bool" where
  "is_digit c = (c \<in> set ''0123456789'')"

definition digit_val :: "char \<Rightarrow> nat" where
  "digit_val c = of_char c - 48"

fun digits_val :: "nat \<Rightarrow> string \<Rightarrow> nat" where
  "digits_val acc [] = acc"
| "digits_val acc (c # cs) = digits_val (10 * acc + digit_val c) cs"

definition is_blank :: "char \<Rightarrow> bool" where
  "is_blank c = (c \<in> set [CHR '' '', CHR 0x09, CHR 0x0A, CHR 0x0B, CHR 0x0C, CHR 0x0D])"

definition strip :: "string \<Rightarrow> string" where
  "strip s = rev (dropWhile is_blank (rev (dropWhile is_blank s)))"

definition lower :: "char \<Rightarrow> char" where
  "lower c =
     (case map_of (zip ''ABCDEFGHIJKLMNOPQRSTUVWXYZ'' ''abcdefghijklmnopqrstuvwxyz'') c of
        Some l \<Rightarrow> l
      | None \<Rightarrow> c)"

text \<open>The exponent part of a literal: nothing, or \<open>e\<close>, an optional sign and digits.\<close>

definition exponent :: "string \<Rightarrow> int option" where
  "exponent s =
     (case s of
        [] \<Rightarrow> Some 0
      | c # t \<Rightarrow>
          if lower c \<noteq> CHR ''e'' then None
          else (case t of
                  [] \<Rightarrow> None
                | d # u \<Rightarrow>
                    if d = CHR ''-'' \<and> u \<noteq> [] \<and> list_all is_digit u
                    then Some (- int (digits_val 0 u))
                    else if d = CHR ''+'' \<and> u \<noteq> [] \<and> list_all is_digit u
                    then Some (int (digits_val 0 u))
                    else if list_all is_digit t then Some (int (digits_val 0 t))
                    else None))"

definition scale :: "real \<Rightarrow> int \<Rightarrow> real" where
  "scale m e = (if 0 \<le> e then m * 10 ^ nat e else m / 10 ^ nat (- e))"

definition unsigned_literal :: "string \<Rightarrow> num option" where
  "unsigned_literal s =
     (let ip = takeWhile is_digit s; rest = dropWhile is_digit s
      in if rest = [] then (if ip = [] then None else Some (I (int (digits_val 0 ip))))
         else
           (let after_point = (case rest of c # t \<Rightarrow> if c = CHR ''.'' then t else rest | [] \<Rightarrow> []);
                fp = (if after_point = rest then [] else takeWhile is_digit after_point);
                tail = (if after_point = rest then rest else dropWhile is_digit after_point)
            in if ip = [] \<and> fp = [] then None
               else (case exponent tail of
                       None \<Rightarrow> None
                     | Some e \<Rightarrow>
                         Some (F (Fin (scale (real (digits_val 0 ip)
                                              + real (digits_val 0 fp) / 10 ^ length fp) e))))))"

definition unsigned_value :: "string \<Rightarrow> num" where
  "unsigned_value s =
     (if map lower s = ''inf'' \<or> map lower s = ''infinity'' then F PInf
      else (case unsigned_literal s of Some v \<Rightarrow> v | None \<Rightarrow> F NaN))"

fun nneg :: "num \<Rightarrow> num" where
  "nneg (I i) = I (- i)"
| "nneg (F v) = F (fneg v)"

text \<open>With \<open>errors='coerce'\<close> a string that is no literal is read as NaN.\<close>

definition read_number :: "string \<Rightarrow> num" where
  "read_number s =
     (case strip s of
        [] \<Rightarrow> F NaN
      | c # t \<Rightarrow>
          if c = CHR ''-'' then nneg (unsigned_value t)
          else if c = CHR ''+'' then unsigned_value t
          else unsigned_value (c # t))"

definition to_numeric :: "cell \<Rightarrow> num" where
  "to_numeric c =
     (case c of
        Whole i \<Rightarrow> I i
      | Number x \<Rightarrow> F (Fin x)
      | Blank \<Rightarrow> F NaN
      | Text s \<Rightarrow> read_number s)"

text \<open>\<open>.replace({',': ''}, regex=True)\<close>: every comma of a string cell is removed.\<close>

definition replace_commas :: "cell \<Rightarrow> cell" where
  "replace_commas c =
     (case c of Text s \<Rightarrow> Text (filter (\<lambda>ch. ch \<noteq> CHR '','') s) | other \<Rightarrow> other)"

text \<open>\<open>.fillna(0)\<close>: a missing cell becomes 0, every other cell is kept.\<close>

definition fillna0 :: "num \<Rightarrow> num" where
  "fillna0 v = (case v of F NaN \<Rightarrow> F (Fin 0) | other \<Rightarrow> other)"

subsection \<open>The type of a column and its arithmetic\<close>

text \<open>
  A column whose cells are all integers of the int64 range is an int64 column; any
  other column is a float64 column, and its integers are floats. The arithmetic of two
  int64 cells stays in int64 and wraps around; every other arithmetic is that of floats,
  and the division \<open>/\<close> always is.
\<close>

definition in_int64 :: "int \<Rightarrow> bool" where
  "in_int64 i = (- (2 ^ 63) \<le> i \<and> i < 2 ^ 63)"

definition wrap64 :: "int \<Rightarrow> int" where
  "wrap64 i = (i + 2 ^ 63) mod 2 ^ 64 - 2 ^ 63"

definition is_int64 :: "num \<Rightarrow> bool" where
  "is_int64 v = (case v of I i \<Rightarrow> in_int64 i | F x \<Rightarrow> False)"

definition column_dtype :: "num list \<Rightarrow> dtype" where
  "column_dtype vs = (if list_all is_int64 vs then Int64 else Float64)"

fun to_float :: "num \<Rightarrow> fnum" where
  "to_float (I i) = Fin (of_int i)"
| "to_float (F v) = v"

definition as_column :: "dtype \<Rightarrow> num \<Rightarrow> num" where
  "as_column d v = (case d of Int64 \<Rightarrow> v | Float64 \<Rightarrow> F (to_float v))"

fun nsub :: "num \<Rightarrow> num \<Rightarrow> num" where
  "nsub (I a) (I b) = I (wrap64 (a - b))"
| "nsub a b = F (fsub (to_float a) (to_float b))"

fun nmul :: "num \<Rightarrow> num \<Rightarrow> num" where
  "nmul (I a) (I b) = I (wrap64 (a * b))"
| "nmul a b = F (fmul (to_float a) (to_float b))"

definition ndiv :: "num \<Rightarrow> num \<Rightarrow> fnum" where
  "ndiv a b = fdiv (to_float a) (to_float b)"

section \<open>The loaded table\<close>

datatype category = Budget | Mid_Range | Premium | Luxury

text \<open>
  \<open>pd.cut\<close> with the bins \<open>[0, 2000, 5000, 10000, inf]\<close> and its defaults
  (\<open>right=True\<close>, \<open>include_lowest=False\<close>): a value outside every bin and a missing
  value get no category.
\<close>

definition price_cut :: "fnum \<Rightarrow> category option" where
  "price_cut v =
     (if flt (Fin 0) v \<and> fle v (Fin 2000) then Some Budget
      else if flt (Fin 2000) v \<and> fle v (Fin 5000) then Some Mid_Range
      else if flt (Fin 5000) v \<and> fle v (Fin 10000) then Some Premium
      else if flt (Fin 10000) v \<and> fle v PInf then Some Luxury
      else None)"

text \<open>A row of the loaded table; the value of a cell is kept as a float, whatever its column.\<close>

record product =
  brand_name :: string
  model_name :: string
  device_type :: string
  color :: string
  selling_price :: fnum
  original_price :: fnum
  rating :: fnum
  reviews :: fnum
  battery_life :: fnum
  discount :: fnum
  value_score :: fnum
  price_category :: "category option"

text \<open>The types of the four columns whose arithmetic depends on them.\<close>

record dtypes =
  selling_dtype :: dtype
  original_dtype :: dtype
  rating_dtype :: dtype
  reviews_dtype :: dtype

definition column_dtypes :: "csv_row list \<Rightarrow> dtypes" where
  "column_dtypes csv =
     \<lparr> selling_dtype = column_dtype (map (\<lambda>r. to_numeric (replace_commas (csv_selling_price r))) csv),
       original_dtype = column_dtype (map (\<lambda>r. to_numeric (replace_commas (csv_original_price r))) csv),
       rating_dtype = column_dtype (map csv_rating csv),
       reviews_dtype = column_dtype (map (\<lambda>r. to_numeric (csv_reviews r)) csv) \<rparr>"

text \<open>One row of \<open>load_data\<close>, in a table whose columns have the types \<open>d\<close>.\<close>

definition load_row_as :: "dtypes \<Rightarrow> csv_row \<Rightarrow> product" where
  "load_row_as d r =
     (let sp = as_column (selling_dtype d) (to_numeric (replace_commas (csv_selling_price r)));
          op = as_column (original_dtype d) (to_numeric (replace_commas (csv_original_price r)));
          rv = as_column (reviews_dtype d) (fillna0 (to_numeric (csv_reviews r)));
          rt = as_column (rating_dtype d) (csv_rating r)
      in \<lparr> brand_name = csv_brand_name r,
           model_name = csv_model_name r,
           device_type = csv_device_type r,
           color = csv_color r,
           selling_price = to_float sp,
           original_price = to_float op,
           rating = to_float rt,
           reviews = to_float rv,
           battery_life = to_float (csv_battery_life r),
           discount = ndiv (nmul (I 100) (nsub op sp)) op,
           value_score = ndiv (nmul rt rv) sp,
           price_category = price_cut (to_float sp) \<rparr>)"

definition load_data :: "csv_row list \<Rightarrow> product list" where
  "load_data csv = map (load_row_as (column_dtypes csv)) csv"

text \<open>A row as it is loaded in a table none of whose four columns is an int64 column.\<close>

definition float_columns :: dtypes where
  "float_columns =
     \<lparr> selling_dtype = Float64, original_dtype = Float64,
       rating_dtype = Float64, reviews_dtype = Float64 \<rparr>"

definition load_row :: "csv_row \<Rightarrow> product" where
  "load_row r = load_row_as float_columns r"

section \<open>The sidebar filters\<close>

text \<open>
  The values of the five sidebar controls: three multi-selects, the price range slider
  (a pair of integers) and the minimum rating slider.
\<close>

record controls =
  brand_filter :: "string list"
  device_filter :: "string list"
  color_filter :: "string list"
  price_range :: "int \<times> int"
  rating_filter :: real

text \<open>The selections \<open>df[df[column].isin(choice)]\<close> of the three multi-selects.\<close>

definition brand_step :: "controls \<Rightarrow> product list \<Rightarrow> product list" where
  "brand_step c df = filter (\<lambda>r. brand_name r \<in> set (brand_filter c)) df"

definition device_step :: "controls \<Rightarrow> product list \<Rightarrow> product list" where
  "device_step c df = filter (\<lambda>r. device_type r \<in> set (device_filter c)) df"

definition color_step :: "controls \<Rightarrow> product list \<Rightarrow> product list" where
  "color_step c df = filter (\<lambda>r. color r \<in> set (color_filter c)) df"

text \<open>Each selection is made only \<open>if brand_filter:\<close>, that is, for a non-empty choice.\<close>

definition if_brand :: "controls \<Rightarrow> product list \<Rightarrow> product list" where
  "if_brand c df = (if brand_filter c \<noteq> [] then brand_step c df else df)"

definition if_device :: "controls \<Rightarrow> product list \<Rightarrow> product list" where
  "if_device c df = (if device_filter c \<noteq> [] then device_step c df else df)"

definition if_color :: "controls \<Rightarrow> product list \<Rightarrow> product list" where
  "if_color c df = (if color_filter c \<noteq> [] then color_step c df else df)"

text \<open>The last selection: the price within the range and the rating at least the minimum.\<close>

definition in_range :: "controls \<Rightarrow> product \<Rightarrow> bool" where
  "in_range c r =
     (fge (selling_price r) (Fin (of_int (fst (price_range c)))) \<and>
      fle (selling_price r) (Fin (of_int (snd (price_range c)))) \<and>
      fge (rating r) (Fin (rating_filter c)))"

definition range_step :: "controls \<Rightarrow> product list \<Rightarrow> product list" where
  "range_step c df = filter (in_range c) df"

definition filtered_df :: "controls \<Rightarrow> product list \<Rightarrow> product list" where
  "filtered_df c df = range_step c (if_color c (if_device c (if_brand c df)))"

section \<open>Top-N selection\<close>

definition isna :: "fnum \<Rightarrow> bool" where
  "isna v = (case v of NaN \<Rightarrow> True | _ \<Rightarrow> False)"

text \<open>
  \<open>DataFrame.nlargest(n, column)\<close> is \<open>sort_values(column, ascending=False).head(n)\<close>:
  the rows with a key in descending order of the key, rows of equal key in the order of
  the table, then the rows whose key is NaN, and of all these the first \<open>n\<close>.
\<close>

fun insert_desc :: "('a \<Rightarrow> fnum) \<Rightarrow> 'a \<Rightarrow> 'a list \<Rightarrow> 'a list" where
  "insert_desc key x [] = [x]"
| "insert_desc key x (y # ys) =
     (if fgt (key y) (key x) then y # insert_desc key x ys else x # y # ys)"

fun sort_desc :: "('a \<Rightarrow> fnum) \<Rightarrow> 'a list \<Rightarrow> 'a list" where
  "sort_desc key [] = []"
| "sort_desc key (x # xs) = insert_desc key x (sort_desc key xs)"

definition nlargest :: "nat \<Rightarrow> ('a \<Rightarrow> fnum) \<Rightarrow> 'a list \<Rightarrow> 'a list" where
  "nlargest n key df =
     take n (sort_desc key (filter (\<lambda>r. \<not> isna (key r)) df) @ filter (\<lambda>r. isna (key r)) df)"

text \<open>A list of rows in descending order of a key: each key is \<open>>=\<close> every later one.\<close>

definition descending :: "('a \<Rightarrow> fnum) \<Rightarrow> 'a list \<Rightarrow> bool" where
  "descending key rs = sorted_wrt (\<lambda>a b. fge (key a) (key b)) rs"

section \<open>Product rankings\<close>

text \<open>\<open>Series.max()\<close> skips the missing values and is NaN when nothing is left.\<close>

definition col_max :: "fnum list \<Rightarrow> fnum" where
  "col_max vs =
     (case filter (\<lambda>v. \<not> isna v) vs of
        [] \<Rightarrow> NaN
      | v # rest \<Rightarrow> foldl (\<lambda>a b. if fgt b a then b else a) v rest)"

definition overall_score :: "product list \<Rightarrow> product \<Rightarrow> fnum" where
  "overall_score df r =
     fadd (fadd (fadd
       (fmul (rating r) (Fin 0.4))
       (fmul (fmul (fdiv (reviews r) (col_max (map reviews df))) (Fin 5)) (Fin 0.3)))
       (fmul (fmul (fdiv (discount r) (Fin 100)) (Fin 5)) (Fin 0.2)))
       (fmul (fmul (fdiv (battery_life r) (col_max (map battery_life df))) (Fin 5)) (Fin 0.1))"

definition top_overall :: "product list \<Rightarrow> product list" where
  "top_overall df = nlargest 10 (overall_score df) df"

definition top_value :: "product list \<Rightarrow> product list" where
  "top_value df = nlargest 10 value_score df"

definition top_rated :: "product list \<Rightarrow> product list" where
  "top_rated df = nlargest 10 rating df"

definition top_popular :: "product list \<Rightarrow> product list" where
  "top_popular df = nlargest 10 reviews df"

section \<open>The recommendation engine\<close>

datatype budget_range = Budget_0_2K | Mid_Range_2K_5K | Premium_5K_10K | Luxury_10K_plus

datatype priority_choice = Best_Value | Highest_Quality | Most_Popular | Longest_Battery

record preferences =
  budget :: budget_range
  priority :: priority_choice
  preferred_brand :: string
  pref_device_type :: string
  min_rating :: real
  min_battery :: int

definition budget_rows :: "budget_range \<Rightarrow> product list \<Rightarrow> product list" where
  "budget_rows b df =
     (case b of
        Budget_0_2K \<Rightarrow> filter (\<lambda>r. fle (selling_price r) (Fin 2000)) df
      | Mid_Range_2K_5K \<Rightarrow>
          filter (\<lambda>r. fgt (selling_price r) (Fin 2000) \<and> fle (selling_price r) (Fin 5000)) df
      | Premium_5K_10K \<Rightarrow>
          filter (\<lambda>r. fgt (selling_price r) (Fin 5000) \<and> fle (selling_price r) (Fin 10000)) df
      | Luxury_10K_plus \<Rightarrow> filter (\<lambda>r. fgt (selling_price r) (Fin 10000)) df)"

text \<open>The narrowing of the table by the user's preferences.\<close>

definition rec_df :: "preferences \<Rightarrow> product list \<Rightarrow> product list" where
  "rec_df p df =
     (let d1 = budget_rows (budget p) df;
          d2 = (if preferred_brand p \<noteq> ''No Preference''
                then filter (\<lambda>r. brand_name r = preferred_brand p) d1 else d1);
          d3 = (if pref_device_type p \<noteq> ''No Preference''
                then filter (\<lambda>r. device_type r = pref_device_type p) d2 else d2)
      in filter (\<lambda>r. fge (rating r) (Fin (min_rating p)) \<and>
                      fge (battery_life r) (Fin (of_int (min_battery p)))) d3)"

definition priority_key :: "priority_choice \<Rightarrow> product \<Rightarrow> fnum" where
  "priority_key q =
     (case q of
        Best_Value \<Rightarrow> value_score
      | Highest_Quality \<Rightarrow> rating
      | Most_Popular \<Rightarrow> reviews
      | Longest_Battery \<Rightarrow> battery_life)"

text \<open>
  What a press of the button puts on the page: the recommended products, in the order
  of their cards, or the warning.
\<close>

datatype rendering = Recommendations "product list" | Warning string

definition get_recommendations :: "preferences \<Rightarrow> product list \<Rightarrow> rendering" where
  "get_recommendations p df =
     (let narrowed = rec_df p df
      in if length narrowed > 0
         then Recommendations (nlargest 5 (priority_key (priority p)) narrowed)
         else Warning ''No products match your criteria. Please adjust your filters.'')"

section \<open>The properties in the words of the specification\<close>

text \<open>
  The filter pipeline as the specification words it: the rows that satisfy the
  conjunction of the supplied constraints, where an empty choice constrains nothing.
\<close>

definition selected :: "string list \<Rightarrow> string \<Rightarrow> bool" where
  "selected choice v = (choice = [] \<or> v \<in> set choice)"

definition passes :: "controls \<Rightarrow> product \<Rightarrow> bool" where
  "passes c r =
     (selected (brand_filter c) (brand_name r) \<and>
      selected (device_filter c) (device_type r) \<and>
      selected (color_filter c) (color r) \<and>
      in_range c r)"





section \<open>A small catalogue\<close>

text \<open>
  Four lines of a catalogue on which the functions are evaluated: prices written with a
  thousands separator, a negative price, a garbled price, and missing cells.
\<close>

definition tracker_a :: csv_row where
  "tracker_a =
     \<lparr> csv_brand_name = ''Fitbit'', csv_model_name = ''Charge 4'',
       csv_device_type = ''FitnessBand'', csv_color = ''Black'',
       csv_selling_price = Text ''3,499'', csv_original_price = Text ''4,999'',
       csv_rating = F (Fin 4.3), csv_reviews = Number 1200, csv_battery_life = F (Fin 7) \<rparr>"

definition tracker_b :: csv_row where
  "tracker_b =
     \<lparr> csv_brand_name = ''Garmin'', csv_model_name = ''Vivosmart 4'',
       csv_device_type = ''FitnessBand'', csv_color = ''Blue'',
       csv_selling_price = Number 4500, csv_original_price = Number 6000,
       csv_rating = F (Fin 4.5), csv_reviews = Number 300, csv_battery_life = F (Fin 10) \<rparr>"

definition tracker_c :: csv_row where
  "tracker_c =
     \<lparr> csv_brand_name = ''Xiaomi'', csv_model_name = ''Band 5'',
       csv_device_type = ''FitnessBand'', csv_color = ''Black'',
       csv_selling_price = Text ''1,999'', csv_original_price = Text ''2,499'',
       csv_rating = F (Fin 4.1), csv_reviews = Blank, csv_battery_life = F NaN \<rparr>"

definition tracker_d :: csv_row where
  "tracker_d =
     \<lparr> csv_brand_name = ''Noise'', csv_model_name = ''ColorFit'',
       csv_device_type = ''Smartwatch'', csv_color = ''Red'',
       csv_selling_price = Text ''-500'', csv_original_price = Text ''n/a'',
       csv_rating = F NaN, csv_reviews = Text ''12'', csv_battery_life = F (Fin 3) \<rparr>"

definition catalogue :: "csv_row list" where
  "catalogue = [tracker_c, tracker_a, tracker_b, tracker_d]"

text \<open>The sidebar as it is when the page opens on this catalogue: nothing chosen.\<close>

definition open_controls :: controls where
  "open_controls =
     \<lparr> brand_filter = [], device_filter = [], color_filter = [],
       price_range = (- 500, 4500), rating_filter = 1 \<rparr>"

definition mid_range_preferences :: preferences where
  "mid_range_preferences =
     \<lparr> budget = Mid_Range_2K_5K, priority = Best_Value,
       preferred_brand = ''No Preference'', pref_device_type = ''No Preference'',
       min_rating = 4, min_battery = 5 \<rparr>"


definition tracker_f :: csv_row where
  "tracker_f =
     \<lparr> csv_brand_name = ''Boat'', csv_model_name = ''Wave'',
       csv_device_type = ''Smartwatch'', csv_color = ''Grey'',
       csv_selling_price = Number 3000, csv_original_price = Number 3500,
       csv_rating = F PInf, csv_reviews = Number 0, csv_battery_life = F (Fin 7) \<rparr>"

definition catalogue_f :: "csv_row list" where
  "catalogue_f = [tracker_f, tracker_b]"

definition open_controls_f :: controls where
  "open_controls_f =
     \<lparr> brand_filter = [], device_filter = [], color_filter = [],
       price_range = (3000, 4500), rating_filter = 1 \<rparr>"

section \<open>Facts about the column values and the loader\<close>

lemma fge_Fin: "fge (Fin a) (Fin b) = (b \<le> a)"
  by (simp add: fge_def)

lemma fgt_Fin: "fgt (Fin a) (Fin b) = (b < a)"
  by (simp add: fgt_def)

lemma fge_not_isna: "fge a b \<Longrightarrow> \<not> isna a \<and> \<not> isna b"
  by (cases a; cases b; simp add: fge_def isna_def)

lemma fge_if_not_fgt: "\<not> isna a \<Longrightarrow> \<not> isna b \<Longrightarrow> \<not> fgt b a \<Longrightarrow> fge a b"
  by (cases a; cases b; simp add: fge_def fgt_def isna_def)

lemma fgt_imp_fge: "fgt a b \<Longrightarrow> fge a b"
  by (cases a; cases b; simp add: fge_def fgt_def)

lemma fge_trans: "fge a b \<Longrightarrow> fge b c \<Longrightarrow> fge a c"
  by (cases a; cases b; cases c; simp add: fge_def)

lemma fge_Fin_right: "fge v (Fin b) = (v = PInf \<or> (\<exists>x. v = Fin x \<and> b \<le> x))"
  by (cases v; simp add: fge_def)

lemma fle_Fin_right: "fle v (Fin b) = (v = NInf \<or> (\<exists>x. v = Fin x \<and> x \<le> b))"
  by (cases v; simp)

lemma fgt_Fin_right: "fgt v (Fin b) = (v = PInf \<or> (\<exists>x. v = Fin x \<and> b < x))"
  by (cases v; simp add: fgt_def)

lemma flt_Fin_left: "flt (Fin b) v = (v = PInf \<or> (\<exists>x. v = Fin x \<and> b < x))"
  by (cases v; simp)

lemma to_float_as_column: "to_float (as_column d v) = to_float v"
  by (cases d) (simp_all add: as_column_def)

lemma selling_price_load_row_as:
  "selling_price (load_row_as d r) = to_float (to_numeric (replace_commas (csv_selling_price r)))"
  by (simp add: load_row_as_def Let_def to_float_as_column)


lemma rating_load_row_as: "rating (load_row_as d r) = to_float (csv_rating r)"
  by (simp add: load_row_as_def Let_def to_float_as_column)

lemma reviews_load_row_as:
  "reviews (load_row_as d r) = to_float (fillna0 (to_numeric (csv_reviews r)))"
  by (simp add: load_row_as_def Let_def to_float_as_column)

lemma battery_life_load_row_as: "battery_life (load_row_as d r) = to_float (csv_battery_life r)"
  by (simp add: load_row_as_def Let_def)


lemma value_score_load_row_as:
  "value_score (load_row_as d r) =
     ndiv (nmul (as_column (rating_dtype d) (csv_rating r))
                (as_column (reviews_dtype d) (fillna0 (to_numeric (csv_reviews r)))))
          (as_column (selling_dtype d) (to_numeric (replace_commas (csv_selling_price r))))"
  by (simp add: load_row_as_def Let_def)

lemma price_category_load_row_as:
  "price_category (load_row_as d r) = price_cut (selling_price (load_row_as d r))"
  by (simp add: load_row_as_def Let_def)

lemma to_float_fillna0: "\<not> isna (to_float (fillna0 v))"
  by (cases v) (simp_all add: fillna0_def isna_def split: fnum.splits)

lemma reviews_present: "\<not> isna (reviews (load_row_as d r))"
  by (simp add: reviews_load_row_as to_float_fillna0)

lemma load_data_rows:
  "r \<in> set (load_data csv) \<Longrightarrow> \<exists>line. line \<in> set csv \<and> r = load_row_as (column_dtypes csv) line"
  by (auto simp add: load_data_def)


lemma price_cut_Fin:
  "price_cut (Fin x) =
     (if 0 < x \<and> x \<le> 2000 then Some Budget
      else if 2000 < x \<and> x \<le> 5000 then Some Mid_Range
      else if 5000 < x \<and> x \<le> 10000 then Some Premium
      else if 10000 < x then Some Luxury
      else None)"
  by (simp add: price_cut_def)

lemma price_cut_NaN: "price_cut NaN = None"
  by (simp add: price_cut_def)

section \<open>Facts about the top-N selection\<close>

lemma set_insert_desc: "set (insert_desc key x ys) = insert x (set ys)"
  by (induction ys) auto

lemma length_insert_desc: "length (insert_desc key x ys) = Suc (length ys)"
  by (induction ys) auto

lemma set_sort_desc: "set (sort_desc key xs) = set xs"
  by (induction xs) (auto simp add: set_insert_desc)

lemma length_sort_desc: "length (sort_desc key xs) = length xs"
  by (induction xs) (auto simp add: length_insert_desc)

lemma descending_insert_desc:
  assumes "\<not> isna (key x)" and "\<forall>y\<in>set ys. \<not> isna (key y)" and "descending key ys"
  shows "descending key (insert_desc key x ys)"
  using assms
proof (induction ys)
  case Nil
  then show ?case by (simp add: descending_def)
next
  case (Cons y ys)
  show ?case
  proof (cases "fgt (key y) (key x)")
    case True
    have tail: "descending key (insert_desc key x ys)"
      using Cons by (simp add: descending_def)
    have "\<forall>z\<in>set (insert_desc key x ys). fge (key y) (key z)"
      using Cons.prems(3) True by (auto simp add: set_insert_desc descending_def fgt_imp_fge)
    with tail True show ?thesis by (simp add: descending_def)
  next
    case False
    have xy: "fge (key x) (key y)"
      using False Cons.prems(1,2) by (simp add: fge_if_not_fgt)
    have "\<forall>z\<in>set ys. fge (key x) (key z)"
      using Cons.prems(3) xy by (auto simp add: descending_def intro: fge_trans)
    with xy False Cons.prems(3) show ?thesis by (simp add: descending_def)
  qed
qed

lemma descending_sort_desc:
  "\<forall>y\<in>set xs. \<not> isna (key y) \<Longrightarrow> descending key (sort_desc key xs)"
proof (induction xs)
  case Nil
  then show ?case by (simp add: descending_def)
next
  case (Cons x xs)
  then show ?case by (simp add: descending_insert_desc set_sort_desc)
qed

lemma descending_take: "descending key rs \<Longrightarrow> descending key (take n rs)"
  by (simp add: descending_def sorted_wrt_take)

lemma length_nlargest: "length (nlargest n key df) = min n (length df)"
proof -
  have sum: "length (filter (\<lambda>r. \<not> isna (key r)) df) + length (filter (\<lambda>r. isna (key r)) df) = length df"
    using sum_length_filter_compl [of "\<lambda>r. \<not> isna (key r)" df] by simp
  have "length (nlargest n key df)
          = min (length (sort_desc key (filter (\<lambda>r. \<not> isna (key r)) df))
                   + length (filter (\<lambda>r. isna (key r)) df)) n"
    unfolding nlargest_def by (simp only: length_take length_append)
  then show ?thesis
    using sum by (simp only: length_sort_desc min.commute)
qed

lemma set_nlargest_subset: "set (nlargest n key df) \<subseteq> set df"
proof -
  have "set (nlargest n key df)
          \<subseteq> set (sort_desc key (filter (\<lambda>r. \<not> isna (key r)) df) @ filter (\<lambda>r. isna (key r)) df)"
    unfolding nlargest_def by (rule set_take_subset)
  also have "\<dots> \<subseteq> set df"
    by (auto simp add: set_sort_desc)
  finally show ?thesis .
qed

lemma present_in_take_sorted:
  "r \<in> set (take n (sort_desc key (filter (\<lambda>r. \<not> isna (key r)) df))) \<Longrightarrow> \<not> isna (key r)"
proof -
  assume "r \<in> set (take n (sort_desc key (filter (\<lambda>r. \<not> isna (key r)) df)))"
  then have "r \<in> set (sort_desc key (filter (\<lambda>r. \<not> isna (key r)) df))"
    by (rule in_set_takeD)
  then show ?thesis
    by (simp add: set_sort_desc)
qed

lemma missing_in_take:
  "r \<in> set (take k (filter (\<lambda>r. isna (key r)) df)) \<Longrightarrow> isna (key r)"
proof -
  assume "r \<in> set (take k (filter (\<lambda>r. isna (key r)) df))"
  then have "r \<in> set (filter (\<lambda>r. isna (key r)) df)"
    by (rule in_set_takeD)
  then show ?thesis
    by simp
qed

lemma nlargest_present_part:
  "filter (\<lambda>r. \<not> isna (key r)) (nlargest n key df)
     = take n (sort_desc key (filter (\<lambda>r. \<not> isna (key r)) df))"
proof -
  let ?S = "sort_desc key (filter (\<lambda>r. \<not> isna (key r)) df)"
  let ?M = "filter (\<lambda>r. isna (key r)) df"
  have f1: "filter (\<lambda>r. \<not> isna (key r)) (take n ?S) = take n ?S"
    by (rule filter_True) (blast dest: present_in_take_sorted)
  have f2: "filter (\<lambda>r. \<not> isna (key r)) (take (n - length ?S) ?M) = []"
    by (rule filter_False) (blast dest: missing_in_take)
  show ?thesis
    by (simp only: nlargest_def take_append filter_append f1 f2 append_Nil2)
qed

lemma nlargest_missing_part:
  "filter (\<lambda>r. isna (key r)) (nlargest n key df)
     = take (n - length (filter (\<lambda>r. \<not> isna (key r)) df)) (filter (\<lambda>r. isna (key r)) df)"
proof -
  let ?S = "sort_desc key (filter (\<lambda>r. \<not> isna (key r)) df)"
  let ?M = "filter (\<lambda>r. isna (key r)) df"
  have f1: "filter (\<lambda>r. isna (key r)) (take n ?S) = []"
    by (rule filter_False) (blast dest: present_in_take_sorted)
  have f2: "filter (\<lambda>r. isna (key r)) (take (n - length ?S) ?M) = take (n - length ?S) ?M"
    by (rule filter_True) (blast dest: missing_in_take)
  show ?thesis
    unfolding nlargest_def take_append filter_append f1 f2 append_Nil
    by (simp only: length_sort_desc)
qed

lemma nlargest_present_first:
  "nlargest n key df
     = filter (\<lambda>r. \<not> isna (key r)) (nlargest n key df) @ filter (\<lambda>r. isna (key r)) (nlargest n key df)"
proof -
  let ?S = "sort_desc key (filter (\<lambda>r. \<not> isna (key r)) df)"
  let ?M = "filter (\<lambda>r. isna (key r)) df"
  have a: "nlargest n key df = take n ?S @ take (n - length ?S) ?M"
    by (simp only: nlargest_def take_append)
  have b: "filter (\<lambda>r. \<not> isna (key r)) (nlargest n key df) = take n ?S"
    by (rule nlargest_present_part)
  have c: "filter (\<lambda>r. isna (key r)) (nlargest n key df) = take (n - length ?S) ?M"
    by (simp only: nlargest_missing_part length_sort_desc)
  show ?thesis
    unfolding b c by (rule a)
qed

lemma descending_present_part:
  "descending key (filter (\<lambda>r. \<not> isna (key r)) (nlargest n key df))"
proof -
  have "descending key (sort_desc key (filter (\<lambda>r. \<not> isna (key r)) df))"
    by (rule descending_sort_desc) simp
  then show ?thesis
    by (simp only: nlargest_present_part descending_take)
qed

lemma descending_nlargest:
  assumes "\<forall>r\<in>set df. \<not> isna (key r)"
  shows "descending key (nlargest n key df)"
proof -
  have m: "filter (\<lambda>r. isna (key r)) df = []"
    using assms by (simp add: filter_empty_conv)
  have s: "filter (\<lambda>r. \<not> isna (key r)) df = df"
    using assms by (simp add: filter_id_conv)
  have "nlargest n key df = take n (sort_desc key df)"
    by (simp only: nlargest_def m s append_Nil2)
  moreover have "descending key (sort_desc key df)"
    using assms by (rule descending_sort_desc)
  ultimately show ?thesis
    by (simp only: descending_take)
qed

section \<open>The small catalogue, loaded and filtered\<close>

lemmas parse_defs = to_numeric_def replace_commas_def read_number_def strip_def is_blank_def
  unsigned_value_def unsigned_literal_def exponent_def scale_def lower_def is_digit_def
  digit_val_def

lemmas row_defs = load_row_def load_row_as_def float_columns_def Let_def fillna0_def
  as_column_def ndiv_def fsub_def price_cut_def

lemma load_tracker_a:
  "load_row tracker_a =
     \<lparr> brand_name = ''Fitbit'', model_name = ''Charge 4'', device_type = ''FitnessBand'',
       color = ''Black'', selling_price = Fin 3499, original_price = Fin 4999,
       rating = Fin 4.3, reviews = Fin 1200, battery_life = Fin 7,
       discount = Fin (150000 / 4999), value_score = Fin (5160 / 3499),
       price_category = Some Mid_Range \<rparr>"
  by (simp add: tracker_a_def row_defs parse_defs)

lemma load_tracker_b:
  "load_row tracker_b =
     \<lparr> brand_name = ''Garmin'', model_name = ''Vivosmart 4'', device_type = ''FitnessBand'',
       color = ''Blue'', selling_price = Fin 4500, original_price = Fin 6000,
       rating = Fin 4.5, reviews = Fin 300, battery_life = Fin 10,
       discount = Fin 25, value_score = Fin 0.3,
       price_category = Some Mid_Range \<rparr>"
  by (simp add: tracker_b_def row_defs parse_defs)

lemma load_tracker_c:
  "load_row tracker_c =
     \<lparr> brand_name = ''Xiaomi'', model_name = ''Band 5'', device_type = ''FitnessBand'',
       color = ''Black'', selling_price = Fin 1999, original_price = Fin 2499,
       rating = Fin 4.1, reviews = Fin 0, battery_life = NaN,
       discount = Fin (50000 / 2499), value_score = Fin 0,
       price_category = Some Budget \<rparr>"
  by (simp add: tracker_c_def row_defs parse_defs)

lemma load_tracker_d:
  "load_row tracker_d =
     \<lparr> brand_name = ''Noise'', model_name = ''ColorFit'', device_type = ''Smartwatch'',
       color = ''Red'', selling_price = Fin (- 500), original_price = NaN,
       rating = NaN, reviews = Fin 12, battery_life = Fin 3,
       discount = NaN, value_score = NaN,
       price_category = None \<rparr>"
  by (simp add: tracker_d_def row_defs parse_defs)

lemma catalogue_dtypes: "column_dtypes catalogue = float_columns"
  by (simp add: column_dtypes_def column_dtype_def is_int64_def float_columns_def
      catalogue_def tracker_a_def tracker_b_def tracker_c_def tracker_d_def
      to_numeric_def replace_commas_def)

lemma load_catalogue:
  "load_data catalogue = [load_row tracker_c, load_row tracker_a, load_row tracker_b, load_row tracker_d]"
  unfolding load_data_def catalogue_dtypes load_row_def
  by (simp add: catalogue_def)

lemma filtered_catalogue:
  "filtered_df open_controls (load_data catalogue)
     = [load_row tracker_c, load_row tracker_a, load_row tracker_b]"
  unfolding load_catalogue load_tracker_a load_tracker_b load_tracker_c load_tracker_d
  by (simp add: filtered_df_def range_step_def in_range_def if_color_def if_device_def
      if_brand_def open_controls_def fge_def)

section \<open>The loader: price categories, discount and cleaned prices\<close>

lemma price_category_row:
  "r \<in> set (load_data csv) \<Longrightarrow> price_category r = price_cut (selling_price r)"
  by (auto simp add: load_data_def price_category_load_row_as)

text \<open>
  C3. The price category of a loaded row follows the fixed bins: a selling price in
  0-2000 is Budget, in 2000-5000 Mid-Range, in 5000-10000 Premium and above 10000 Luxury;
  and a table of three rows whose selling prices are 1000, 3000 and 12000 gets the
  categories Budget, Mid-Range, Luxury.
\<close>

theorem price_category_bins:
  assumes "r \<in> set (load_data csv)" and "selling_price r = Fin x"
  shows "(0 < x \<and> x \<le> 2000 \<longrightarrow> price_category r = Some Budget) \<and>
         (2000 < x \<and> x \<le> 5000 \<longrightarrow> price_category r = Some Mid_Range) \<and>
         (5000 < x \<and> x \<le> 10000 \<longrightarrow> price_category r = Some Premium) \<and>
         (10000 < x \<longrightarrow> price_category r = Some Luxury) \<and>
         (map selling_price (load_data csv) = [Fin 1000, Fin 3000, Fin 12000] \<longrightarrow>
            map price_category (load_data csv) = [Some Budget, Some Mid_Range, Some Luxury])"
proof -
  have cat: "price_category r = price_cut (Fin x)"
    using assms by (simp add: price_category_row)
  have scen: "map price_category (load_data csv) = [Some Budget, Some Mid_Range, Some Luxury]"
    if prices: "map selling_price (load_data csv) = [Fin 1000, Fin 3000, Fin 12000]"
  proof -
    have "map price_category (load_data csv) = map price_cut (map selling_price (load_data csv))"
      by (simp add: load_data_def price_category_load_row_as)
    also have "\<dots> = [Some Budget, Some Mid_Range, Some Luxury]"
      unfolding prices by (simp add: price_cut_Fin)
    finally show ?thesis .
  qed
  have bins: "(0 < x \<and> x \<le> 2000 \<longrightarrow> price_cut (Fin x) = Some Budget) \<and>
         (2000 < x \<and> x \<le> 5000 \<longrightarrow> price_cut (Fin x) = Some Mid_Range) \<and>
         (5000 < x \<and> x \<le> 10000 \<longrightarrow> price_cut (Fin x) = Some Premium) \<and>
         (10000 < x \<longrightarrow> price_cut (Fin x) = Some Luxury)"
    by (simp add: price_cut_Fin)
  show ?thesis
    unfolding cat using bins scen by blast
qed

text \<open>The bins of C3 on the catalogue, and the three-row scenario with one price written as text.\<close>

theorem price_category_bins_witness:
  "price_category (load_row tracker_c) = Some Budget \<and>
   map price_category
     (load_data [tracker_a\<lparr>csv_selling_price := Number 1000\<rparr>,
                 tracker_a\<lparr>csv_selling_price := Text ''3,000''\<rparr>,
                 tracker_a\<lparr>csv_selling_price := Number 12000\<rparr>])
     = [Some Budget, Some Mid_Range, Some Luxury]"
proof -
  let ?csv = "[tracker_a\<lparr>csv_selling_price := Number 1000\<rparr>,
               tracker_a\<lparr>csv_selling_price := Text ''3,000''\<rparr>,
               tracker_a\<lparr>csv_selling_price := Number 12000\<rparr>]"
  have prices: "map selling_price (load_data ?csv) = [Fin 1000, Fin 3000, Fin 12000]"
    by (simp add: load_data_def selling_price_load_row_as parse_defs)
  have mem: "load_row tracker_c \<in> set (load_data catalogue)"
    by (simp add: load_catalogue)
  have price: "selling_price (load_row tracker_c) = Fin 1999"
    by (simp add: load_tracker_c)
  have mem3: "load_data ?csv ! 0 \<in> set (load_data ?csv)"
    by (simp add: load_data_def)
  have price3: "selling_price (load_data ?csv ! 0) = Fin 1000"
    by (simp add: load_data_def selling_price_load_row_as parse_defs)
  show ?thesis
    using price_category_bins [OF mem price] price_category_bins [OF mem3 price3] prices
    by simp
qed

text \<open>
  C10. The bins are open on the left and closed on the right: a row whose selling price is
  exactly 2000 is Budget, one at exactly 5000 is Mid-Range, and a row whose selling price
  is exactly 0, or missing, gets no category; for a finite price each category is
  characterised by its half-open interval. This holds for a price read as a float and as
  an integer, whatever the types of the columns.
\<close>

theorem price_bins_left_open_right_closed:
  "price_category (load_row (r\<lparr>csv_selling_price := Number 2000\<rparr>)) = Some Budget \<and>
   price_category (load_row (r\<lparr>csv_selling_price := Number 5000\<rparr>)) = Some Mid_Range \<and>
   price_category (load_row (r\<lparr>csv_selling_price := Number 0\<rparr>)) = None \<and>
   price_category (load_row (r\<lparr>csv_selling_price := Blank\<rparr>)) = None \<and>
   (price_cut (Fin x) = Some Budget) = (0 < x \<and> x \<le> 2000) \<and>
   (price_cut (Fin x) = Some Mid_Range) = (2000 < x \<and> x \<le> 5000) \<and>
   (price_cut (Fin x) = Some Premium) = (5000 < x \<and> x \<le> 10000) \<and>
   (price_cut (Fin x) = Some Luxury) = (10000 < x) \<and>
   (price_cut (Fin x) = None) = (x \<le> 0) \<and>
   price_category (load_row_as d (r\<lparr>csv_selling_price := Whole 2000\<rparr>)) = Some Budget \<and>
   price_category (load_row_as d (r\<lparr>csv_selling_price := Whole 5000\<rparr>)) = Some Mid_Range \<and>
   price_category (load_row_as d (r\<lparr>csv_selling_price := Whole 0\<rparr>)) = None \<and>
   price_category (load_row_as d (r\<lparr>csv_selling_price := Number 2000\<rparr>)) = Some Budget \<and>
   price_category (load_row_as d (r\<lparr>csv_selling_price := Number 5000\<rparr>)) = Some Mid_Range \<and>
   price_category (load_row_as d (r\<lparr>csv_selling_price := Number 0\<rparr>)) = None \<and>
   price_category (load_row_as d (r\<lparr>csv_selling_price := Blank\<rparr>)) = None"
proof -
  have rows: "price_category (load_row (r\<lparr>csv_selling_price := Number 2000\<rparr>)) = Some Budget \<and>
   price_category (load_row (r\<lparr>csv_selling_price := Number 5000\<rparr>)) = Some Mid_Range \<and>
   price_category (load_row (r\<lparr>csv_selling_price := Number 0\<rparr>)) = None \<and>
   price_category (load_row (r\<lparr>csv_selling_price := Blank\<rparr>)) = None"
    by (simp add: load_row_def price_category_load_row_as selling_price_load_row_as
      replace_commas_def to_numeric_def price_cut_Fin price_cut_NaN)
  have bins: "(price_cut (Fin x) = Some Budget) = (0 < x \<and> x \<le> 2000) \<and>
   (price_cut (Fin x) = Some Mid_Range) = (2000 < x \<and> x \<le> 5000) \<and>
   (price_cut (Fin x) = Some Premium) = (5000 < x \<and> x \<le> 10000) \<and>
   (price_cut (Fin x) = Some Luxury) = (10000 < x) \<and>
   (price_cut (Fin x) = None) = (x \<le> 0)"
    by (auto simp add: price_cut_Fin)
  have typed: "price_category (load_row_as d (r\<lparr>csv_selling_price := Whole 2000\<rparr>)) = Some Budget \<and>
   price_category (load_row_as d (r\<lparr>csv_selling_price := Whole 5000\<rparr>)) = Some Mid_Range \<and>
   price_category (load_row_as d (r\<lparr>csv_selling_price := Whole 0\<rparr>)) = None \<and>
   price_category (load_row_as d (r\<lparr>csv_selling_price := Number 2000\<rparr>)) = Some Budget \<and>
   price_category (load_row_as d (r\<lparr>csv_selling_price := Number 5000\<rparr>)) = Some Mid_Range \<and>
   price_category (load_row_as d (r\<lparr>csv_selling_price := Number 0\<rparr>)) = None \<and>
   price_category (load_row_as d (r\<lparr>csv_selling_price := Blank\<rparr>)) = None"
    by (simp add: price_category_load_row_as selling_price_load_row_as
      replace_commas_def to_numeric_def price_cut_Fin price_cut_NaN)
  show ?thesis
    using rows bins typed by blast
qed

text \<open>The four boundary rows of C10, loaded as a table.\<close>

theorem price_bins_left_open_right_closed_witness:
  "map price_category
     (load_data [tracker_a\<lparr>csv_selling_price := Number 2000\<rparr>,
                 tracker_a\<lparr>csv_selling_price := Number 5000\<rparr>,
                 tracker_a\<lparr>csv_selling_price := Number 0\<rparr>,
                 tracker_a\<lparr>csv_selling_price := Blank\<rparr>])
     = [Some Budget, Some Mid_Range, None, None]"
proof -
  let ?csv = "[tracker_a\<lparr>csv_selling_price := Number 2000\<rparr>,
                 tracker_a\<lparr>csv_selling_price := Number 5000\<rparr>,
                 tracker_a\<lparr>csv_selling_price := Number 0\<rparr>,
                 tracker_a\<lparr>csv_selling_price := Blank\<rparr>]"
  show ?thesis
    using price_bins_left_open_right_closed [of tracker_a 2000 "column_dtypes ?csv"]
    by (simp add: load_data_def)
qed


















section \<open>The filter pipeline, the top-N selection and the warning\<close>

lemma filtered_df_passes: "filtered_df c df = filter (passes c) df"
proof -
  have b: "if_brand c df = filter (\<lambda>r. selected (brand_filter c) (brand_name r)) df" for df
    by (simp add: if_brand_def brand_step_def selected_def)
  have d: "if_device c df = filter (\<lambda>r. selected (device_filter c) (device_type r)) df" for df
    by (simp add: if_device_def device_step_def selected_def)
  have k: "if_color c df = filter (\<lambda>r. selected (color_filter c) (color r)) df" for df
    by (simp add: if_color_def color_step_def selected_def)
  have "filtered_df c df
          = filter (in_range c) (filter (\<lambda>r. selected (color_filter c) (color r))
              (filter (\<lambda>r. selected (device_filter c) (device_type r))
                (filter (\<lambda>r. selected (brand_filter c) (brand_name r)) df)))"
    by (simp only: filtered_df_def range_step_def b d k)
  also have "\<dots> = filter (\<lambda>r. ((selected (brand_filter c) (brand_name r) \<and>
                  selected (device_filter c) (device_type r)) \<and>
                  selected (color_filter c) (color r)) \<and> in_range c r) df"
    by (simp only: filter_filter)
  also have "\<dots> = filter (passes c) df"
    by (rule filter_cong [OF refl]) (simp add: passes_def)
  finally show ?thesis .
qed

lemma set_filtered_df: "set (filtered_df c df) = {r \<in> set df. passes c r}"
  by (simp add: filtered_df_passes)

text \<open>
  C2. For every table and every setting of the other controls, the filter pipeline with
  an empty brand choice gives exactly the rows, in the same order, of the pipeline from
  which the brand selection is left out: an empty choice passes every row through.
  The same holds for an empty device-type choice and an empty color choice.
\<close>

theorem empty_selection_pass_through:
  "filtered_df (c\<lparr>brand_filter := []\<rparr>) df = range_step c (if_color c (if_device c df)) \<and>
   filtered_df (c\<lparr>device_filter := []\<rparr>) df = range_step c (if_color c (if_brand c df)) \<and>
   filtered_df (c\<lparr>color_filter := []\<rparr>) df = range_step c (if_device c (if_brand c df))"
proof -
  have i: "in_range (c\<lparr>brand_filter := []\<rparr>) = in_range c"
    "in_range (c\<lparr>device_filter := []\<rparr>) = in_range c"
    "in_range (c\<lparr>color_filter := []\<rparr>) = in_range c"
    by (simp_all add: in_range_def fun_eq_iff)
  have r: "range_step (c\<lparr>brand_filter := []\<rparr>) = range_step c"
    "range_step (c\<lparr>device_filter := []\<rparr>) = range_step c"
    "range_step (c\<lparr>color_filter := []\<rparr>) = range_step c"
    by (simp_all add: range_step_def i fun_eq_iff)
  have b: "if_brand (c\<lparr>brand_filter := []\<rparr>) = (\<lambda>df. df)"
    "if_brand (c\<lparr>device_filter := []\<rparr>) = if_brand c"
    "if_brand (c\<lparr>color_filter := []\<rparr>) = if_brand c"
    by (simp_all add: if_brand_def brand_step_def fun_eq_iff)
  have d: "if_device (c\<lparr>brand_filter := []\<rparr>) = if_device c"
    "if_device (c\<lparr>device_filter := []\<rparr>) = (\<lambda>df. df)"
    "if_device (c\<lparr>color_filter := []\<rparr>) = if_device c"
    by (simp_all add: if_device_def device_step_def fun_eq_iff)
  have k: "if_color (c\<lparr>brand_filter := []\<rparr>) = if_color c"
    "if_color (c\<lparr>device_filter := []\<rparr>) = if_color c"
    "if_color (c\<lparr>color_filter := []\<rparr>) = (\<lambda>df. df)"
    by (simp_all add: if_color_def color_step_def fun_eq_iff)
  show ?thesis
    by (simp only: filtered_df_def r b d k simp_thms)
qed

text \<open>
  C6. The filter pipeline is idempotent: for every table and every setting of the
  controls, filtering the filtered table again changes nothing.
\<close>

theorem filter_idempotent: "filtered_df c (filtered_df c df) = filtered_df c df"
  by (simp add: filtered_df_passes)

text \<open>
  C9. Every row of the filtered table has a rating that is present and at least the
  minimum rating of the slider; a row whose rating is missing never passes, whatever
  the slider says.
\<close>

theorem missing_rating_excluded:
  assumes "r \<in> set (filtered_df c df)"
  shows "\<not> isna (rating r) \<and> fge (rating r) (Fin (rating_filter c))"
proof -
  have "in_range c r"
    using assms by (simp add: set_filtered_df passes_def)
  then have "fge (rating r) (Fin (rating_filter c))"
    by (simp add: in_range_def)
  then show ?thesis
    by (simp add: fge_not_isna)
qed


text \<open>C2 on the catalogue: one brand chosen keeps one row, the choice emptied keeps all three.\<close>

theorem empty_selection_pass_through_witness:
  "filtered_df (open_controls\<lparr>brand_filter := [''Garmin'']\<rparr>) (load_data catalogue)
     = [load_row tracker_b] \<and>
   filtered_df (open_controls\<lparr>brand_filter := [''Garmin''], brand_filter := []\<rparr>) (load_data catalogue)
     = [load_row tracker_c, load_row tracker_a, load_row tracker_b]"
proof -
  let ?c = "open_controls\<lparr>brand_filter := [''Garmin'']\<rparr>"
  have one: "filtered_df ?c (load_data catalogue) = [load_row tracker_b]"
    unfolding load_catalogue load_tracker_a load_tracker_b load_tracker_c load_tracker_d
    by (simp add: filtered_df_def range_step_def in_range_def if_color_def if_device_def
        if_brand_def brand_step_def open_controls_def fge_def)
  have rest: "range_step ?c (if_color ?c (if_device ?c (load_data catalogue)))
                = [load_row tracker_c, load_row tracker_a, load_row tracker_b]"
    unfolding load_catalogue load_tracker_a load_tracker_b load_tracker_c load_tracker_d
    by (simp add: range_step_def in_range_def if_color_def if_device_def
        open_controls_def fge_def)
  show ?thesis
    using empty_selection_pass_through [of ?c "load_data catalogue"] one rest
    by simp
qed

text \<open>C6 on the catalogue.\<close>

theorem filter_idempotent_witness:
  "filtered_df open_controls (filtered_df open_controls (load_data catalogue))
     = [load_row tracker_c, load_row tracker_a, load_row tracker_b]"
  using filter_idempotent [of open_controls "load_data catalogue"]
  by (simp add: filtered_catalogue)

text \<open>C9 on a row that the filters keep.\<close>

theorem missing_rating_excluded_witness:
  "load_row tracker_c \<in> set (filtered_df open_controls (load_data catalogue)) \<and>
   \<not> isna (rating (load_row tracker_c)) \<and>
   fge (rating (load_row tracker_c)) (Fin (rating_filter open_controls))"
proof -
  have mem: "load_row tracker_c \<in> set (filtered_df open_controls (load_data catalogue))"
    by (simp add: filtered_catalogue)
  show ?thesis
    using missing_rating_excluded [OF mem] mem by simp
qed

text \<open>
  C5, amended. For every table, every key and every N (10 on the ranking tabs, 5 in the
  recommendation engine), the top-N selection returns min(N, number of rows) rows: first
  the rows whose key is present, in descending order of the key, then rows whose key is
  missing; when no key of the table is missing the whole result is in descending order.
\<close>

theorem top_n_selection:
  "length (nlargest n key df) = min n (length df) \<and>
   nlargest n key df
     = filter (\<lambda>r. \<not> isna (key r)) (nlargest n key df) @ filter (\<lambda>r. isna (key r)) (nlargest n key df) \<and>
   descending key (filter (\<lambda>r. \<not> isna (key r)) (nlargest n key df)) \<and>
   ((\<forall>r\<in>set df. \<not> isna (key r)) \<longrightarrow> descending key (nlargest n key df))"
  using length_nlargest [of n key df] nlargest_present_first [of n key df]
    descending_present_part [of key n df] descending_nlargest [of df key n]
  by blast

text \<open>
  C7. When the narrowed set is empty the recommendation engine shows the warning
  "No products match your criteria. Please adjust your filters."; when it is not empty
  the engine renders the top five of the narrowed set, which is then never an empty list.
\<close>

theorem no_match_warning:
  "(rec_df p df = [] \<longrightarrow>
      get_recommendations p df
        = Warning ''No products match your criteria. Please adjust your filters.'') \<and>
   (rec_df p df \<noteq> [] \<longrightarrow>
      get_recommendations p df
        = Recommendations (nlargest 5 (priority_key (priority p)) (rec_df p df)) \<and>
      nlargest 5 (priority_key (priority p)) (rec_df p df) \<noteq> [])"
proof -
  have "nlargest 5 (priority_key (priority p)) (rec_df p df) \<noteq> []" if "rec_df p df \<noteq> []"
  proof -
    have "length (nlargest 5 (priority_key (priority p)) (rec_df p df)) = min 5 (length (rec_df p df))"
      by (rule length_nlargest)
    moreover have "0 < length (rec_df p df)"
      using that by simp
    ultimately have "0 < length (nlargest 5 (priority_key (priority p)) (rec_df p df))"
      by simp
    then show ?thesis by simp
  qed
  then show ?thesis
    by (simp add: get_recommendations_def Let_def)
qed

section \<open>Rankings and recommendations on the catalogue\<close>

lemma catalogue_col_max:
  "col_max (map reviews [load_row tracker_c, load_row tracker_a, load_row tracker_b]) = Fin 1200"
  "col_max (map battery_life [load_row tracker_c, load_row tracker_a, load_row tracker_b]) = Fin 10"
  by (simp_all add: load_tracker_a load_tracker_b load_tracker_c col_max_def isna_def fgt_def)

lemma catalogue_overall_score:
  "overall_score [load_row tracker_c, load_row tracker_a, load_row tracker_b] (load_row tracker_c)
     = NaN"
  "overall_score [load_row tracker_c, load_row tracker_a, load_row tracker_b] (load_row tracker_a)
     = Fin (1934643 / 499900)"
  "overall_score [load_row tracker_c, load_row tracker_a, load_row tracker_b] (load_row tracker_b)
     = Fin (117 / 40)"
  unfolding overall_score_def catalogue_col_max
  by (simp_all add: load_tracker_a load_tracker_b load_tracker_c)

lemma catalogue_top_overall:
  "top_overall [load_row tracker_c, load_row tracker_a, load_row tracker_b]
     = [load_row tracker_a, load_row tracker_b, load_row tracker_c]"
  by (simp add: top_overall_def nlargest_def catalogue_overall_score isna_def fgt_def)

lemma catalogue_top_rated:
  "top_rated [load_row tracker_c, load_row tracker_a, load_row tracker_b]
     = [load_row tracker_b, load_row tracker_a, load_row tracker_c]"
proof -
  have keys: "rating (load_row tracker_a) = Fin 4.3" "rating (load_row tracker_b) = Fin 4.5"
    "rating (load_row tracker_c) = Fin 4.1"
    by (simp_all add: load_tracker_a load_tracker_b load_tracker_c)
  show ?thesis
    by (simp add: top_rated_def nlargest_def keys isna_def fgt_def)
qed

text \<open>
  C5, as stated, fails on a table with a missing key: the catalogue row whose battery
  life is missing has no overall score, the ranking keeps it as the last of the three
  rows, and a missing score is not \<open><=\<close> the score before it.
\<close>

theorem top_overall_not_descending:
  "\<not> descending (overall_score (filtered_df open_controls (load_data catalogue)))
       (top_overall (filtered_df open_controls (load_data catalogue)))"
  unfolding filtered_catalogue catalogue_top_overall
  by (simp add: descending_def catalogue_overall_score fge_def)


text \<open>The amended C5 on the catalogue: three rows ranked, and the ranking by rating in descending order.\<close>

theorem top_n_selection_witness:
  "length (top_overall (filtered_df open_controls (load_data catalogue))) = 3 \<and>
   descending rating (top_rated (filtered_df open_controls (load_data catalogue))) \<and>
   top_rated (filtered_df open_controls (load_data catalogue))
     = [load_row tracker_b, load_row tracker_a, load_row tracker_c]"
proof -
  let ?df = "filtered_df open_controls (load_data catalogue)"
  have present: "\<forall>r\<in>set ?df. \<not> isna (rating r)"
    by (simp add: filtered_catalogue load_tracker_a load_tracker_b load_tracker_c isna_def)
  have d: "descending rating (nlargest 10 rating ?df)"
    using top_n_selection [of 10 rating ?df] present by blast
  have l: "length (nlargest 10 (overall_score ?df) ?df) = min 10 (length ?df)"
    using top_n_selection [of 10 "overall_score ?df" ?df] by blast
  have len: "length ?df = 3"
    by (simp add: filtered_catalogue)
  have rated: "top_rated ?df = [load_row tracker_b, load_row tracker_a, load_row tracker_c]"
    by (simp only: filtered_catalogue catalogue_top_rated)
  have "length (top_overall ?df) = 3"
    using l len by (simp add: top_overall_def)
  moreover have "descending rating (top_rated ?df)"
    using d by (simp add: top_rated_def)
  ultimately show ?thesis
    using rated by blast
qed

lemma catalogue_rec_df:
  "rec_df mid_range_preferences [load_row tracker_c, load_row tracker_a, load_row tracker_b]
     = [load_row tracker_a, load_row tracker_b]"
  unfolding load_tracker_a load_tracker_b load_tracker_c
  by (simp add: rec_df_def Let_def budget_rows_def mid_range_preferences_def fge_def fgt_def)

lemma catalogue_rec_df_luxury:
  "rec_df (mid_range_preferences\<lparr>budget := Luxury_10K_plus\<rparr>)
     [load_row tracker_c, load_row tracker_a, load_row tracker_b] = []"
  unfolding load_tracker_a load_tracker_b load_tracker_c
  by (simp add: rec_df_def Let_def budget_rows_def mid_range_preferences_def fge_def fgt_def)

lemma catalogue_best_value:
  "nlargest 5 value_score [load_row tracker_a, load_row tracker_b]
     = [load_row tracker_a, load_row tracker_b]"
proof -
  have keys: "value_score (load_row tracker_a) = Fin (5160 / 3499)"
    "value_score (load_row tracker_b) = Fin 0.3"
    by (simp_all add: load_tracker_a load_tracker_b)
  show ?thesis
    by (simp add: nlargest_def keys isna_def fgt_def)
qed

text \<open>C7 on the catalogue: no luxury product gives the warning, the mid-range bracket two cards.\<close>

theorem no_match_warning_witness:
  "get_recommendations (mid_range_preferences\<lparr>budget := Luxury_10K_plus\<rparr>)
     (filtered_df open_controls (load_data catalogue))
     = Warning ''No products match your criteria. Please adjust your filters.'' \<and>
   get_recommendations mid_range_preferences (filtered_df open_controls (load_data catalogue))
     = Recommendations [load_row tracker_a, load_row tracker_b]"
proof -
  let ?df = "filtered_df open_controls (load_data catalogue)"
  have none: "rec_df (mid_range_preferences\<lparr>budget := Luxury_10K_plus\<rparr>) ?df = []"
    by (simp only: filtered_catalogue catalogue_rec_df_luxury)
  have some: "rec_df mid_range_preferences ?df = [load_row tracker_a, load_row tracker_b]"
    by (simp only: filtered_catalogue catalogue_rec_df)
  have key: "priority_key (priority mid_range_preferences) = value_score"
    by (simp add: priority_key_def mid_range_preferences_def)
  have "get_recommendations (mid_range_preferences\<lparr>budget := Luxury_10K_plus\<rparr>) ?df
          = Warning ''No products match your criteria. Please adjust your filters.''"
    using no_match_warning [of "mid_range_preferences\<lparr>budget := Luxury_10K_plus\<rparr>" ?df] none
    by blast
  moreover have "get_recommendations mid_range_preferences ?df
          = Recommendations (nlargest 5 (priority_key (priority mid_range_preferences))
              (rec_df mid_range_preferences ?df))"
    using no_match_warning [of mid_range_preferences ?df] some by simp
  ultimately show ?thesis
    by (simp only: some key catalogue_best_value simp_thms)
qed

section \<open>The mid-range recommendation scenario\<close>

lemma rec_df_rows:
  assumes "r \<in> set (rec_df p df)"
  shows "r \<in> set (budget_rows (budget p) df) \<and>
         fge (rating r) (Fin (min_rating p)) \<and>
         fge (battery_life r) (Fin (of_int (min_battery p)))"
  using assms by (auto simp add: rec_df_def Let_def split: if_splits)

lemma budget_rows_mid_range:
  assumes "r \<in> set (budget_rows Mid_Range_2K_5K df)"
  shows "r \<in> set df \<and> fgt (selling_price r) (Fin 2000) \<and> fle (selling_price r) (Fin 5000)"
  using assms by (simp add: budget_rows_def)

lemma filtered_df_rows: "r \<in> set (filtered_df c df) \<Longrightarrow> r \<in> set df"
  by (simp add: set_filtered_df)

lemma price_in_bracket:
  assumes "fgt v (Fin lo)" and "fle v (Fin hi)"
  shows "\<exists>s. v = Fin s \<and> lo < s \<and> s \<le> hi"
  using assms by (cases v) (simp_all add: fgt_def)

lemma nmul_missing:
  assumes "isna (to_float (nmul a b))"
  shows "isna (to_float a) \<or> isna (to_float b) \<or>
         (to_float a \<in> {PInf, NInf} \<and> to_float b = Fin 0) \<or>
         (to_float a = Fin 0 \<and> to_float b \<in> {PInf, NInf})"
proof (cases a)
  case (I x)
  then show ?thesis
    using assms
    by (cases b) (auto simp add: isna_def inf_of_sign_def split: fnum.splits if_splits)
next
  case (F v)
  then show ?thesis
    using assms
    by (cases b; cases v)
      (auto simp add: isna_def inf_of_sign_def split: fnum.splits if_splits)
qed

lemma value_score_missing:
  assumes "isna (value_score (load_row_as d line))"
    and "selling_price (load_row_as d line) = Fin s" and "s \<noteq> 0"
    and "fge (rating (load_row_as d line)) (Fin 4)"
  shows "rating (load_row_as d line) = PInf \<and> reviews (load_row_as d line) = Fin 0"
proof -
  let ?rt = "as_column (rating_dtype d) (csv_rating line)"
  let ?rv = "as_column (reviews_dtype d) (fillna0 (to_numeric (csv_reviews line)))"
  let ?sp = "as_column (selling_dtype d) (to_numeric (replace_commas (csv_selling_price line)))"
  have rt: "to_float ?rt = rating (load_row_as d line)"
    by (simp add: rating_load_row_as to_float_as_column)
  have rv: "to_float ?rv = reviews (load_row_as d line)"
    by (simp add: reviews_load_row_as to_float_as_column)
  have sp: "to_float ?sp = Fin s"
    using assms(2) by (simp add: selling_price_load_row_as to_float_as_column)
  have "isna (fdiv (to_float (nmul ?rt ?rv)) (Fin s))"
    using assms(1) by (simp add: value_score_load_row_as ndiv_def sp)
  then have "isna (to_float (nmul ?rt ?rv))"
    using assms(3) by (cases "to_float (nmul ?rt ?rv)") (simp_all add: isna_def split: if_splits)
  then have "isna (to_float ?rt) \<or> isna (to_float ?rv) \<or>
         (to_float ?rt \<in> {PInf, NInf} \<and> to_float ?rv = Fin 0) \<or>
         (to_float ?rt = Fin 0 \<and> to_float ?rv \<in> {PInf, NInf})"
    by (rule nmul_missing)
  moreover have "\<not> isna (to_float ?rt)"
    using assms(4) fge_not_isna unfolding rt by blast
  moreover have "\<not> isna (to_float ?rv)"
    unfolding rv by (rule reviews_present)
  moreover have "to_float ?rt \<noteq> NInf" "to_float ?rt \<noteq> Fin 0"
    using assms(4) unfolding rt by (auto simp add: fge_def)
  ultimately show ?thesis
    unfolding rt rv by auto
qed


text \<open>
  C1, amended. For every input table and every setting of the sidebar, when the
  recommendation engine runs with the budget bracket Mid-Range (2K-5K), brand
  "No Preference", device type "No Preference", minimum rating 4.0 and minimum battery 5,
  every recommended row has a selling price above 2000 and at most 5000, a rating of at
  least 4.0 and a battery life of at least 5, and there are at most 5 rows. With the
  priority Highest Quality the rows are in descending order of the rating, with Most
  Popular of the reviews, with Longest Battery of the battery life. With Best Value the
  rows that have a Value Score come first, in descending order of it, and the rows
  without one come last; such a row has an infinite rating and no review, and when no
  recommended row has an infinite rating the whole result is in descending order.
\<close>

theorem mid_range_recommendations:
  assumes "budget p = Mid_Range_2K_5K"
    and "preferred_brand p = ''No Preference''"
    and "pref_device_type p = ''No Preference''"
    and "min_rating p = 4" and "min_battery p = 5"
    and "get_recommendations p (filtered_df c (load_data csv)) = Recommendations rs"
  shows "(\<forall>r\<in>set rs. (\<exists>s. selling_price r = Fin s \<and> 2000 < s \<and> s \<le> 5000) \<and>
            fge (rating r) (Fin 4) \<and> fge (battery_life r) (Fin 5)) \<and>
         (priority p = Highest_Quality \<longrightarrow> descending rating rs) \<and>
         (priority p = Most_Popular \<longrightarrow> descending reviews rs) \<and>
         (priority p = Longest_Battery \<longrightarrow> descending battery_life rs) \<and>
         (priority p = Best_Value \<longrightarrow>
            rs = filter (\<lambda>r. \<not> isna (value_score r)) rs @ filter (\<lambda>r. isna (value_score r)) rs \<and>
            descending value_score (filter (\<lambda>r. \<not> isna (value_score r)) rs) \<and>
            (\<forall>r\<in>set rs. isna (value_score r) \<longrightarrow> rating r = PInf \<and> reviews r = Fin 0) \<and>
            ((\<forall>r\<in>set rs. rating r \<noteq> PInf) \<longrightarrow> descending value_score rs)) \<and>
         length rs \<le> 5"
proof -
  let ?df = "filtered_df c (load_data csv)"
  let ?key = "priority_key (priority p)"
  have rs: "rs = nlargest 5 ?key (rec_df p ?df)"
    using assms(6) by (simp add: get_recommendations_def Let_def split: if_splits)
  have row: "(\<exists>s. selling_price r = Fin s \<and> 2000 < s \<and> s \<le> 5000) \<and>
             fge (rating r) (Fin 4) \<and> fge (battery_life r) (Fin 5) \<and>
             \<not> isna (reviews r) \<and>
             (isna (value_score r) \<longrightarrow> rating r = PInf \<and> reviews r = Fin 0)"
    if "r \<in> set (rec_df p ?df)" for r
  proof -
    have b: "r \<in> set (budget_rows Mid_Range_2K_5K ?df)"
      and rt: "fge (rating r) (Fin 4)" and bt: "fge (battery_life r) (Fin 5)"
      using rec_df_rows [OF that] by (simp_all add: assms(1,4,5))
    have "r \<in> set (load_data csv)"
      using budget_rows_mid_range [OF b] filtered_df_rows by blast
    then obtain line where r: "r = load_row_as (column_dtypes csv) line"
      using load_data_rows by blast
    obtain s where s: "selling_price r = Fin s" "2000 < s" "s \<le> 5000"
      using budget_rows_mid_range [OF b] price_in_bracket [of "selling_price r" 2000 5000]
      by blast
    have "isna (value_score r) \<longrightarrow> rating r = PInf \<and> reviews r = Fin 0"
      using value_score_missing [of "column_dtypes csv" line s] s rt unfolding r by simp
    moreover have "\<not> isna (reviews r)"
      unfolding r by (rule reviews_present)
    ultimately show ?thesis
      using s rt bt by blast
  qed
  have sub: "set rs \<subseteq> set (rec_df p ?df)"
    unfolding rs by (rule set_nlargest_subset)
  have rows: "\<forall>r\<in>set rs. (\<exists>s. selling_price r = Fin s \<and> 2000 < s \<and> s \<le> 5000) \<and>
            fge (rating r) (Fin 4) \<and> fge (battery_life r) (Fin 5)"
    using sub row by blast
  have quality: "descending rating rs" if "priority p = Highest_Quality"
  proof -
    have "\<forall>r\<in>set (rec_df p ?df). \<not> isna (rating r)"
      using row fge_not_isna by blast
    then have "descending rating (nlargest 5 rating (rec_df p ?df))"
      by (rule descending_nlargest)
    then show ?thesis
      by (simp add: rs that priority_key_def)
  qed
  have popular: "descending reviews rs" if "priority p = Most_Popular"
  proof -
    have "\<forall>r\<in>set (rec_df p ?df). \<not> isna (reviews r)"
      using row by blast
    then have "descending reviews (nlargest 5 reviews (rec_df p ?df))"
      by (rule descending_nlargest)
    then show ?thesis
      by (simp add: rs that priority_key_def)
  qed
  have battery: "descending battery_life rs" if "priority p = Longest_Battery"
  proof -
    have "\<forall>r\<in>set (rec_df p ?df). \<not> isna (battery_life r)"
      using row fge_not_isna by blast
    then have "descending battery_life (nlargest 5 battery_life (rec_df p ?df))"
      by (rule descending_nlargest)
    then show ?thesis
      by (simp add: rs that priority_key_def)
  qed
  have best: "rs = filter (\<lambda>r. \<not> isna (value_score r)) rs @ filter (\<lambda>r. isna (value_score r)) rs \<and>
            descending value_score (filter (\<lambda>r. \<not> isna (value_score r)) rs) \<and>
            (\<forall>r\<in>set rs. isna (value_score r) \<longrightarrow> rating r = PInf \<and> reviews r = Fin 0) \<and>
            ((\<forall>r\<in>set rs. rating r \<noteq> PInf) \<longrightarrow> descending value_score rs)"
    if "priority p = Best_Value"
  proof -
    have k: "rs = nlargest 5 value_score (rec_df p ?df)"
      by (simp add: rs that priority_key_def)
    have split: "rs = filter (\<lambda>r. \<not> isna (value_score r)) rs @ filter (\<lambda>r. isna (value_score r)) rs"
      unfolding k by (rule nlargest_present_first)
    have part: "descending value_score (filter (\<lambda>r. \<not> isna (value_score r)) rs)"
      unfolding k by (rule descending_present_part)
    have missing: "\<forall>r\<in>set rs. isna (value_score r) \<longrightarrow> rating r = PInf \<and> reviews r = Fin 0"
      using sub row by blast
    have "descending value_score rs" if "\<forall>r\<in>set rs. rating r \<noteq> PInf"
    proof -
      have "\<forall>r\<in>set rs. \<not> isna (value_score r)"
        using missing that by blast
      then have "filter (\<lambda>r. \<not> isna (value_score r)) rs = rs"
        by (simp add: filter_id_conv)
      then show ?thesis
        using part by simp
    qed
    then show ?thesis
      using split part missing by blast
  qed
  have "length rs = min 5 (length (rec_df p ?df))"
    unfolding rs by (rule length_nlargest)
  then have "length rs \<le> 5"
    by simp
  with rows quality popular battery best show ?thesis
    by blast
qed


lemma load_tracker_f:
  "load_row tracker_f =
     \<lparr> brand_name = ''Boat'', model_name = ''Wave'', device_type = ''Smartwatch'',
       color = ''Grey'', selling_price = Fin 3000, original_price = Fin 3500,
       rating = PInf, reviews = Fin 0, battery_life = Fin 7,
       discount = Fin (100 / 7), value_score = NaN,
       price_category = Some Mid_Range \<rparr>"
  by (simp add: tracker_f_def row_defs to_numeric_def replace_commas_def inf_of_sign_def)

lemma load_catalogue_f: "load_data catalogue_f = [load_row tracker_f, load_row tracker_b]"
proof -
  have "column_dtypes catalogue_f = float_columns"
    by (simp add: column_dtypes_def column_dtype_def is_int64_def float_columns_def
        catalogue_f_def tracker_f_def tracker_b_def to_numeric_def replace_commas_def)
  then show ?thesis
    by (simp add: load_data_def load_row_def catalogue_f_def)
qed

lemma filtered_catalogue_f:
  "filtered_df open_controls_f (load_data catalogue_f) = [load_row tracker_f, load_row tracker_b]"
  unfolding load_catalogue_f load_tracker_f load_tracker_b
  by (simp add: filtered_df_def range_step_def in_range_def if_color_def if_device_def
      if_brand_def open_controls_f_def fge_def)

lemma catalogue_f_rec_df:
  "rec_df mid_range_preferences [load_row tracker_f, load_row tracker_b]
     = [load_row tracker_f, load_row tracker_b]"
  unfolding load_tracker_f load_tracker_b
  by (simp add: rec_df_def Let_def budget_rows_def mid_range_preferences_def fge_def fgt_def)

lemma catalogue_f_best_value:
  "nlargest 5 value_score [load_row tracker_f, load_row tracker_b]
     = [load_row tracker_b, load_row tracker_f]"
proof -
  have keys: "value_score (load_row tracker_f) = NaN" "value_score (load_row tracker_b) = Fin 0.3"
    by (simp_all add: load_tracker_f load_tracker_b)
  show ?thesis
    by (simp add: nlargest_def keys isna_def fgt_def)
qed

text \<open>
  C1, as stated, fails with the priority Best Value on a table with a row whose rating
  is written \<open>inf\<close> and which has no review: its Value Score is \<open>inf * 0 / price\<close>, which is
  missing; the row passes every selection and is recommended last, after a row with the
  Value Score 0.3.
\<close>

theorem best_value_not_descending:
  "budget mid_range_preferences = Mid_Range_2K_5K \<and>
   preferred_brand mid_range_preferences = ''No Preference'' \<and>
   pref_device_type mid_range_preferences = ''No Preference'' \<and>
   min_rating mid_range_preferences = 4 \<and> min_battery mid_range_preferences = 5 \<and>
   priority mid_range_preferences = Best_Value \<and>
   get_recommendations mid_range_preferences (filtered_df open_controls_f (load_data catalogue_f))
     = Recommendations [load_row tracker_b, load_row tracker_f] \<and>
   \<not> descending value_score [load_row tracker_b, load_row tracker_f]"
proof -
  have key: "priority_key (priority mid_range_preferences) = value_score"
    by (simp add: priority_key_def mid_range_preferences_def)
  have out: "get_recommendations mid_range_preferences
               (filtered_df open_controls_f (load_data catalogue_f))
             = Recommendations [load_row tracker_b, load_row tracker_f]"
    unfolding filtered_catalogue_f
    by (simp add: get_recommendations_def Let_def catalogue_f_rec_df key catalogue_f_best_value)
  have "\<not> descending value_score [load_row tracker_b, load_row tracker_f]"
    by (simp add: descending_def load_tracker_f load_tracker_b fge_def)
  then show ?thesis
    using out by (simp add: mid_range_preferences_def)
qed

lemma catalogue_highest_quality:
  "nlargest 5 rating [load_row tracker_a, load_row tracker_b]
     = [load_row tracker_b, load_row tracker_a]"
proof -
  have keys: "rating (load_row tracker_a) = Fin 4.3" "rating (load_row tracker_b) = Fin 4.5"
    by (simp_all add: load_tracker_a load_tracker_b)
  show ?thesis
    by (simp add: nlargest_def keys isna_def fgt_def)
qed

text \<open>
  The amended C1 on the catalogue: with Best Value two cards, the better value first;
  with Highest Quality the same two, the better rated first.
\<close>

theorem mid_range_recommendations_witness:
  "get_recommendations mid_range_preferences (filtered_df open_controls (load_data catalogue))
     = Recommendations [load_row tracker_a, load_row tracker_b] \<and>
   descending value_score [load_row tracker_a, load_row tracker_b] \<and>
   get_recommendations (mid_range_preferences\<lparr>priority := Highest_Quality\<rparr>)
       (filtered_df open_controls (load_data catalogue))
     = Recommendations [load_row tracker_b, load_row tracker_a] \<and>
   descending rating [load_row tracker_b, load_row tracker_a] \<and>
   fge (rating (load_row tracker_a)) (Fin 4) \<and>
   fge (battery_life (load_row tracker_a)) (Fin 5)"
proof -
  let ?df = "filtered_df open_controls (load_data catalogue)"
  let ?q = "mid_range_preferences\<lparr>priority := Highest_Quality\<rparr>"
  have p: "budget mid_range_preferences = Mid_Range_2K_5K"
    "preferred_brand mid_range_preferences = ''No Preference''"
    "pref_device_type mid_range_preferences = ''No Preference''"
    "min_rating mid_range_preferences = 4" "min_battery mid_range_preferences = 5"
    by (simp_all add: mid_range_preferences_def)
  have q: "budget ?q = Mid_Range_2K_5K" "preferred_brand ?q = ''No Preference''"
    "pref_device_type ?q = ''No Preference''" "min_rating ?q = 4" "min_battery ?q = 5"
    by (simp_all add: mid_range_preferences_def)
  have key: "priority_key (priority mid_range_preferences) = value_score"
    "priority_key (priority ?q) = rating"
    by (simp_all add: priority_key_def mid_range_preferences_def)
  have same: "rec_df ?q [load_row tracker_c, load_row tracker_a, load_row tracker_b]
                = rec_df mid_range_preferences [load_row tracker_c, load_row tracker_a, load_row tracker_b]"
    by (simp add: rec_df_def Let_def)
  have out: "get_recommendations mid_range_preferences ?df
               = Recommendations [load_row tracker_a, load_row tracker_b]"
    unfolding filtered_catalogue
    by (simp add: get_recommendations_def Let_def catalogue_rec_df key catalogue_best_value)
  have outq: "get_recommendations ?q ?df = Recommendations [load_row tracker_b, load_row tracker_a]"
    unfolding filtered_catalogue
    by (simp only: get_recommendations_def Let_def same catalogue_rec_df key
        catalogue_highest_quality) simp
  have finite: "\<forall>r\<in>set [load_row tracker_a, load_row tracker_b]. rating r \<noteq> PInf"
    by (simp add: load_tracker_a load_tracker_b)
  have bv: "priority mid_range_preferences = Best_Value"
    and hq: "priority ?q = Highest_Quality"
    by (simp_all add: mid_range_preferences_def)
  have mem: "load_row tracker_a \<in> set [load_row tracker_a, load_row tracker_b]"
    by simp
  have v: "descending value_score [load_row tracker_a, load_row tracker_b]"
    using mid_range_recommendations [OF p out] bv finite by blast
  have r: "descending rating [load_row tracker_b, load_row tracker_a]"
    using mid_range_recommendations [OF q outq] hq by blast
  have "fge (rating (load_row tracker_a)) (Fin 4) \<and> fge (battery_life (load_row tracker_a)) (Fin 5)"
    using mid_range_recommendations [OF p out] mem by blast
  then show ?thesis
    using out outq v r by blast
qed

end
